theory Spec2Isabelle
  imports Complex_Main "HOL-Library.Sublist"
begin

section \<open>Numbers and strings of the source language\<close>

text \<open>
  The calculator is TypeScript. Two conventions fix how its values are read here.

  \<^bold>\<open>Numbers.\<close> A finite number is an exact rational (\<^typ>\<open>rat\<close>): decimal
  literals such as \<open>12.5\<close> and \<open>2.54\<close> stand for themselves, arithmetic does not
  round and does not overflow. The two values of the source that are not finite are
  kept apart explicitly: \<open>NaN\<close>, which \<open>parseFloat\<close> returns for text that does not
  start with a number, is a value of its own wherever the source can hold it (the
  parsed weight and declared value, and the three dimensions, which the form stores
  as \<open>parseFloat(e.target.value)\<close> without a default); and a run of the calculation
  in which a number becomes \<open>Infinity\<close>, or in which a table lookup yields something
  that is not a number, ends in the outcome \<open>Unmodelled\<close> below instead of being
  computed with. The fields of the settings are plain rationals: the settings form
  stores \<open>parseFloat(value) || 0\<close>, which is never \<open>NaN\<close>.

  \<^bold>\<open>Strings.\<close> A string is a list of code units below 256 (\<^typ>\<open>string\<close>), read
  as the characters U+0000 to U+00FF. \<open>toLowerCase\<close>, \<open>trim\<close> and the white space
  skipped by \<open>parseFloat\<close> are the language's own functions restricted to that range.
\<close>

definition isUpper :: "char \<Rightarrow> bool" where
  "isUpper c = (let n = (of_char c :: int)
                in (65 \<le> n \<and> n \<le> 90) \<or> (192 \<le> n \<and> n \<le> 222 \<and> n \<noteq> 215))"

definition lowerChar :: "char \<Rightarrow> char" where
  "lowerChar c = (if isUpper c then char_of ((of_char c :: int) + 32) else c)"

definition toLowerCase :: "string \<Rightarrow> string" where
  "toLowerCase s = map lowerChar s"

text \<open>White space and line terminators below U+0100: TAB, LF, VT, FF, CR, SP, NBSP.\<close>

definition isWhiteSpace :: "char \<Rightarrow> bool" where
  "isWhiteSpace c = ((of_char c :: int) \<in> {9, 10, 11, 12, 13, 32, 160})"

definition trim :: "string \<Rightarrow> string" where
  "trim s = rev (dropWhile isWhiteSpace (rev (dropWhile isWhiteSpace s)))"

text \<open>\<open>s.includes(t)\<close> and \<open>s.startsWith(t)\<close>, by search from the left.\<close>

fun includes_str :: "string \<Rightarrow> string \<Rightarrow> bool" where
  "includes_str [] t = (t = [])"
| "includes_str (c # s) t = (take (length t) (c # s) = t \<or> includes_str s t)"

definition startsWith :: "string \<Rightarrow> string \<Rightarrow> bool" where
  "startsWith s t = (take (length t) s = t)"

subsection \<open>parseFloat\<close>

text \<open>
  \<open>parseFloat\<close> skips leading white space and reads the longest prefix that is a
  decimal literal: an optional sign, then \<open>Infinity\<close>, or digits with an optional
  fraction (at least one digit before or after the point) and an optional exponent
  (taken only when it has a digit). Anything after that prefix is ignored; with no
  such prefix the result is \<open>NaN\<close>.
\<close>

datatype parsed = NaN | Infinite | Number rat

definition isDigit :: "char \<Rightarrow> bool" where
  "isDigit c = (let n = (of_char c :: int) in 48 \<le> n \<and> n \<le> 57)"

definition digitsValue :: "string \<Rightarrow> int" where
  "digitsValue ds = foldl (\<lambda>a c. 10 * a + ((of_char c :: int) - 48)) 0 ds"

definition signOf :: "string \<Rightarrow> bool \<times> string" where
  "signOf s = (case s of
      [] \<Rightarrow> (False, [])
    | c # r \<Rightarrow> if c = CHR ''-'' then (True, r)
               else if c = CHR ''+'' then (False, r) else (False, s))"

definition exponentPart :: "string \<Rightarrow> int" where
  "exponentPart s = (case s of
      [] \<Rightarrow> 0
    | c # r \<Rightarrow>
        if c = CHR ''e'' \<or> c = CHR ''E'' then
          (let (neg, d) = signOf r; ds = takeWhile isDigit d
           in if ds = [] then 0
              else if neg then - digitsValue ds else digitsValue ds)
        else 0)"

definition scale10 :: "rat \<Rightarrow> int \<Rightarrow> rat" where
  "scale10 m e = (if 0 \<le> e then m * 10 ^ nat e else m / 10 ^ nat (- e))"

definition parseFloat :: "string \<Rightarrow> parsed" where
  "parseFloat s =
     (let (neg, u) = signOf (dropWhile isWhiteSpace s)
      in if startsWith u ''Infinity'' then Infinite
         else
           (let ip = takeWhile isDigit u;
                r1 = dropWhile isDigit u;
                (fp, r2) = (case r1 of
                              [] \<Rightarrow> ([], r1)
                            | c # r \<Rightarrow> if c = CHR ''.''
                                       then (takeWhile isDigit r, dropWhile isDigit r)
                                       else ([], r1))
            in if ip = [] \<and> fp = [] then NaN
               else
                 (let m = of_int (digitsValue (ip @ fp)) / 10 ^ length fp;
                      v = scale10 m (exponentPart r2)
                  in Number (if neg then - v else v))))"

text \<open>\<open>parseFloat(x) || 0\<close>: \<open>NaN\<close> and zero are falsy; \<open>None\<close> stands for an infinite value.\<close>

definition orZero :: "parsed \<Rightarrow> rat option" where
  "orZero p = (case p of NaN \<Rightarrow> Some 0 | Infinite \<Rightarrow> None | Number x \<Rightarrow> Some x)"

subsection \<open>Rounding\<close>

text \<open>
  \<open>x.toFixed(2)\<close> prints the integer \<open>n\<close> for which \<open>n / 100\<close> is nearest to the
  magnitude of \<open>x\<close>, the larger one on a tie, with the sign of \<open>x\<close> in front; the
  source always reads the text back with \<open>parseFloat\<close>. \<open>toFixed2 x\<close> is the number
  read back. (From the magnitude \<open>10^21\<close> on \<open>toFixed\<close> prints the number unrounded;
  the numbers of the source are whole at that size, and \<open>toFixed2\<close> leaves a whole
  number as it is.)
\<close>

definition toFixed2 :: "rat \<Rightarrow> rat" where
  "toFixed2 x = (if x < 0 then - (of_int \<lfloor>- x * 100 + 1 / 2\<rfloor> / 100)
                 else of_int \<lfloor>x * 100 + 1 / 2\<rfloor> / 100)"

text \<open>\<open>Math.round\<close> rounds to the nearest integer, a tie towards plus infinity.\<close>

definition Math_round :: "rat \<Rightarrow> rat" where
  "Math_round x = of_int \<lfloor>x + 1 / 2\<rfloor>"

section \<open>Data model (types.ts)\<close>

datatype DimensionUnit = CM | INCH

record ServiceabilityData =
  pickupAvailable :: bool
  deliveryAvailable :: bool
  zone :: string
  city :: string
  state :: string

text \<open>
  \<open>serviceabilityMap\<close> is \<open>null\<close> (\<open>None\<close>) or an object from postal codes to
  records. A key that the object does not own reads as \<open>undefined\<close> or as an
  inherited property without \<open>zone\<close> and availability fields; the calculation treats
  both alike (no zone override, leg not serviceable), so both are \<open>None\<close> here.
\<close>

record LogisticsSettings =
  volumetricDivisor :: rat
  minChargeableWeight :: rat
  minFreightAmount :: rat
  fuelSurchargePercent :: rat
  awbCharge :: rat
  cftDensityMin :: rat
  odaPerKg :: rat
  odaMin :: rat
  handling70to200 :: rat
  handlingAbove200 :: rat
  codPercent :: rat
  codMin :: rat
  rovPercent :: rat
  rovMin :: rat
  csdCharge :: rat
  timeSpecificPerKg :: rat
  timeSpecificMin :: rat
  mallDeliveryPerKg :: rat
  mallDeliveryMin :: rat
  reattemptPerKg :: rat
  reattemptMin :: rat
  regionalSurcharge :: rat
  serviceabilityMap :: "(string \<rightharpoonup> ServiceabilityData) option"

text \<open>A dimension is a number or \<open>NaN\<close> (\<open>None\<close>); \<open>length\<close> is named \<open>length_dim\<close>.\<close>

record Dimensions =
  length_dim :: "rat option"
  breadth :: "rat option"
  height :: "rat option"

record LocationData =
  pincode :: string
  city :: string
  state :: string
  loading :: bool

record ShipmentOptions =
  isCod :: bool
  isRov :: bool
  isCsd :: bool
  isMallDelivery :: bool
  isTimeSpecific :: bool
  isHoliday :: bool
  isReattempt :: bool

text \<open>
  The value of a zone variable: a zone code, or (see \<open>getZone\<close>) a property that the
  state table inherits from \<open>Object.prototype\<close>, named by its key.
\<close>

datatype zone_value = Code string | Inherited string

record CalculationResult =
  volumetricWeight :: rat
  deadWeight :: rat
  chargeableWeight :: rat
  zoneFrom :: zone_value
  zoneTo :: zone_value
  baseRate :: rat
  freightCharge :: rat
  fuelSurcharge :: rat
  awbCharge :: rat
  odaCharge :: rat
  handlingCharge :: rat
  rovCharge :: rat
  codCharge :: rat
  regionalCharge :: rat
  otherSurcharges :: rat
  totalCost :: rat
  isOda :: bool
  pickupOda :: bool
  deliveryOda :: bool
  warnings :: "string list"

text \<open>
  What one run of the calculation yields: \<open>null\<close>; a result record; or
  \<open>Unmodelled\<close>, when the source does return a result record (the run has passed
  both \<open>return null\<close> statements) but meets an infinite number or a table entry read
  through the prototype chain on the way, where the rational model does not follow it.
  Nothing is proved about the record of such a run.
\<close>

datatype 'a outcome = Null | Unmodelled | Result 'a

section \<open>Zone and rate tables (data/logisticsData.ts)\<close>

definition STATE_ZONE_MAP :: "(string \<times> string) list" where
  "STATE_ZONE_MAP =
    [(''delhi'', ''N1''), (''new delhi'', ''N1''), (''uttar pradesh'', ''N1''),
     (''haryana'', ''N1''), (''rajasthan'', ''N1''),
     (''chandigarh'', ''N2''), (''punjab'', ''N2''), (''himachal pradesh'', ''N2''),
     (''uttarakhand'', ''N2''), (''jammu & kashmir'', ''N2''),
     (''jammu and kashmir'', ''N2''), (''ladakh'', ''N2''),
     (''west bengal'', ''E''), (''odisha'', ''E''), (''bihar'', ''E''),
     (''jharkhand'', ''E''), (''chhattisgarh'', ''E''),
     (''assam'', ''NE''), (''meghalaya'', ''NE''), (''tripura'', ''NE''),
     (''arunachal pradesh'', ''NE''), (''mizoram'', ''NE''), (''manipur'', ''NE''),
     (''nagaland'', ''NE''), (''sikkim'', ''NE''),
     (''gujarat'', ''W1''), (''daman & diu'', ''W1''), (''daman and diu'', ''W1''),
     (''dadra & nagar haveli'', ''W1''),
     (''maharashtra'', ''W2''), (''goa'', ''W2''),
     (''andhra pradesh'', ''S1''), (''telangana'', ''S1''), (''karnataka'', ''S1''),
     (''tamil nadu'', ''S1''), (''puducherry'', ''S1''),
     (''kerala'', ''S2''),
     (''madhya pradesh'', ''Central'')]"

definition ZONE_PRICE_MATRIX :: "(string \<times> (string \<times> rat) list) list" where
  "ZONE_PRICE_MATRIX =
    [(''N1'', [(''N1'', 7.5), (''N2'', 8.5), (''E'', 15), (''NE'', 20.5), (''W1'', 11),
               (''W2'', 12.5), (''S1'', 13.5), (''S2'', 14.5), (''Central'', 10)]),
     (''N2'', [(''N1'', 8.78), (''N2'', 10.13), (''E'', 17.89), (''NE'', 23.96),
               (''W1'', 14.51), (''W2'', 14.51), (''S1'', 15.93), (''S2'', 16.88),
               (''Central'', 11.81)]),
     (''E'', [(''N1'', 11.14), (''N2'', 12.83), (''E'', 11.14), (''NE'', 16.54),
              (''W1'', 14.85), (''W2'', 14.85), (''S1'', 14.58), (''S2'', 14.58),
              (''Central'', 14.51)]),
     (''NE'', [(''N1'', 15.86), (''N2'', 17.21), (''E'', 12.83), (''NE'', 13.84),
               (''W1'', 19.24), (''W2'', 19.24), (''S1'', 18.23), (''S2'', 18.98),
               (''Central'', 20.93)]),
     (''W1'', [(''N1'', 10.8), (''N2'', 12.83), (''E'', 19.58), (''NE'', 27),
               (''W1'', 7.76), (''W2'', 7.76), (''S1'', 12.83), (''S2'', 12.83),
               (''Central'', 9.79)]),
     (''W2'', [(''N1'', 15.19), (''N2'', 16.2), (''E'', 23.29), (''NE'', 30.71),
               (''W1'', 11.14), (''W2'', 11.14), (''S1'', 15.53), (''S2'', 15.53),
               (''Central'', 11.81)]),
     (''S1'', [(''N1'', 18.56), (''N2'', 19.58), (''E'', 21.6), (''NE'', 27.34),
               (''W1'', 13.84), (''W2'', 13.84), (''S1'', 9.18), (''S2'', 10.13),
               (''Central'', 16.2)]),
     (''S2'', [(''N1'', 21.94), (''N2'', 23.29), (''E'', 24.64), (''NE'', 29.36),
               (''W1'', 17.55), (''W2'', 17.55), (''S1'', 11.88), (''S2'', 11.88),
               (''Central'', 19.58)]),
     (''Central'', [(''N1'', 11.81), (''N2'', 12.83), (''E'', 15.86), (''NE'', 23.63),
                    (''W1'', 11.14), (''W2'', 11.14), (''S1'', 13.5), (''S2'', 13.91),
                    (''Central'', 7.76)])]"

text \<open>
  Both tables are object literals, so \<open>table[key]\<close> also finds the properties that
  every object inherits from \<open>Object.prototype\<close>; each of them is a function or an
  object, hence truthy and not a number.
\<close>

definition object_prototype_keys :: "string list" where
  "object_prototype_keys =
    [''constructor'', ''__defineGetter__'', ''__defineSetter__'', ''hasOwnProperty'',
     ''__lookupGetter__'', ''__lookupSetter__'', ''isPrototypeOf'',
     ''propertyIsEnumerable'', ''toString'', ''valueOf'', ''__proto__'',
     ''toLocaleString'']"

text \<open>
  \<open>getZone\<close>: \<open>null\<close> for the empty name; otherwise \<open>STATE_ZONE_MAP[normalized] || null\<close>
  for the lower-cased, trimmed name.
\<close>

definition getZone :: "string \<Rightarrow> zone_value option" where
  "getZone stateName =
     (if stateName = [] then None
      else
        (let normalized = trim (toLowerCase stateName)
         in case map_of STATE_ZONE_MAP normalized of
              Some z \<Rightarrow> if z = [] then None else Some (Code z)
            | None \<Rightarrow> if normalized \<in> set object_prototype_keys
                     then Some (Inherited normalized) else None))"

text \<open>
  \<open>ZONE_PRICE_MATRIX[zoneFrom]?.[zoneTo] || 0\<close>. A zone value that is an inherited
  object is used as a key through its text (\<open>function Object() ...\<close> or
  \<open>[object Object]\<close>), which no table has, so the rate is 0. A zone code that names
  an inherited property reads a function or object instead of a row or a rate:
  \<open>None\<close>, the rate is outside the model.
\<close>

definition rateLookup :: "zone_value \<Rightarrow> zone_value \<Rightarrow> rat option" where
  "rateLookup zf zt =
     (case zf of
        Inherited _ \<Rightarrow> Some 0
      | Code f \<Rightarrow>
          (case map_of ZONE_PRICE_MATRIX f of
             None \<Rightarrow> if f \<in> set object_prototype_keys then None else Some 0
           | Some row \<Rightarrow>
               (case zt of
                  Inherited _ \<Rightarrow> Some 0
                | Code t \<Rightarrow>
                    (case map_of row t of
                       Some r \<Rightarrow> Some r
                     | None \<Rightarrow> if t \<in> set object_prototype_keys then None else Some 0))))"

section \<open>The calculation (App.tsx, the \<open>result\<close> memo)\<close>

definition DEFAULT_SETTINGS :: LogisticsSettings where
  "DEFAULT_SETTINGS =
    \<lparr> volumetricDivisor = 4500, minChargeableWeight = 20, minFreightAmount = 350,
      fuelSurchargePercent = 25, awbCharge = 100, cftDensityMin = 7,
      odaPerKg = 8, odaMin = 1000, handling70to200 = 3, handlingAbove200 = 4,
      codPercent = 1, codMin = 50, rovPercent = 0.5, rovMin = 100,
      csdCharge = 1000, timeSpecificPerKg = 3, timeSpecificMin = 1500,
      mallDeliveryPerKg = 3, mallDeliveryMin = 500,
      reattemptPerKg = 3, reattemptMin = 500,
      regionalSurcharge = 5, serviceabilityMap = None \<rparr>"

definition DEFAULT_OPTIONS :: ShipmentOptions where
  "DEFAULT_OPTIONS =
    \<lparr> isCod = False, isRov = False, isCsd = False, isMallDelivery = False,
      isTimeSpecific = False, isHoliday = False, isReattempt = False \<rparr>"

subsection \<open>Zones and serviceability of the two legs\<close>

text \<open>
  \<open>if (pickupData?.zone) zoneFrom = pickupData.zone\<close>, inside
  \<open>if (settings.serviceabilityMap)\<close>: \<open>z\<close> is the zone found from the state name.
\<close>

definition zoneOverride ::
  "(string \<rightharpoonup> ServiceabilityData) option \<Rightarrow> string \<Rightarrow> zone_value option
     \<Rightarrow> zone_value option" where
  "zoneOverride smap pin z =
     (case smap of
        None \<Rightarrow> z
      | Some m \<Rightarrow>
          (case m pin of
             None \<Rightarrow> z
           | Some d \<Rightarrow> if zone d \<noteq> [] then Some (Code (zone d)) else z))"

text \<open>\<open>if (!pickupData || !pickupData.pickupAvailable) pickupOda = true\<close>, and the same for delivery.\<close>

definition pickupOdaOf :: "(string \<rightharpoonup> ServiceabilityData) option \<Rightarrow> string \<Rightarrow> bool" where
  "pickupOdaOf smap pin =
     (case smap of
        None \<Rightarrow> False
      | Some m \<Rightarrow> (case m pin of None \<Rightarrow> True | Some d \<Rightarrow> \<not> pickupAvailable d))"

definition deliveryOdaOf :: "(string \<rightharpoonup> ServiceabilityData) option \<Rightarrow> string \<Rightarrow> bool" where
  "deliveryOdaOf smap pin =
     (case smap of
        None \<Rightarrow> False
      | Some m \<Rightarrow> (case m pin of None \<Rightarrow> True | Some d \<Rightarrow> \<not> deliveryAvailable d))"

subsection \<open>Weight\<close>

text \<open>\<open>if (dimUnit === DimensionUnit.INCH) { L *= 2.54; ... }\<close>; \<open>None\<close> is \<open>NaN\<close>.\<close>

definition inCm :: "DimensionUnit \<Rightarrow> rat option \<Rightarrow> rat option" where
  "inCm u x = (if u = INCH then map_option (\<lambda>v. v * 2.54) x else x)"

text \<open>\<open>volume = L * B * H\<close>: \<open>NaN\<close> (\<open>None\<close>) as soon as one factor is.\<close>

definition volume :: "Dimensions \<Rightarrow> DimensionUnit \<Rightarrow> rat option" where
  "volume d u =
     (case (inCm u (length_dim d), inCm u (breadth d), inCm u (height d)) of
        (Some L, Some B, Some H) \<Rightarrow> Some (L * B * H)
      | _ \<Rightarrow> None)"

text \<open>
  \<open>volume > 0 ? volume / settings.volumetricDivisor : 0\<close>. The comparison is false
  for \<open>NaN\<close>. A positive volume over the divisor 0 is \<open>Infinity\<close>: here \<open>None\<close>.
\<close>

definition volumetricWtOf :: "rat option \<Rightarrow> rat \<Rightarrow> rat option" where
  "volumetricWtOf vol divisor =
     (case vol of
        None \<Rightarrow> Some 0
      | Some v \<Rightarrow> if v > 0 then (if divisor = 0 then None else Some (v / divisor))
                  else Some 0)"

text \<open>
  \<open>chargeable = Math.max(deadWt, volumetricWt, settings.minChargeableWeight)\<close>, then
  \<open>chargeable = parseFloat(chargeable.toFixed(2))\<close>.
\<close>

definition chargeableOf :: "rat \<Rightarrow> rat \<Rightarrow> rat \<Rightarrow> rat" where
  "chargeableOf deadWt volumetricWt minWt = toFixed2 (max deadWt (max volumetricWt minWt))"

subsection \<open>Freight and surcharges, before any rounding\<close>

definition basicFreight :: "rat \<Rightarrow> rat \<Rightarrow> rat \<Rightarrow> rat" where
  "basicFreight rate chargeable minFreight =
     (let b = rate * chargeable in if b < minFreight then minFreight else b)"

definition fuelOf :: "LogisticsSettings \<Rightarrow> rat \<Rightarrow> rat" where
  "fuelOf s freight = freight * (fuelSurchargePercent s / 100)"

definition odaOf :: "LogisticsSettings \<Rightarrow> bool \<Rightarrow> rat \<Rightarrow> rat" where
  "odaOf s oda chargeable =
     (if oda then max (odaMin s) (odaPerKg s * chargeable) else 0)"

definition handlingOf :: "LogisticsSettings \<Rightarrow> rat \<Rightarrow> rat" where
  "handlingOf s chargeable =
     (if chargeable \<ge> 71 \<and> chargeable \<le> 200 then handling70to200 s * chargeable
      else if chargeable > 200 then handlingAbove200 s * chargeable
      else 0)"

definition isGuwahati :: "LocationData \<Rightarrow> bool" where
  "isGuwahati dropLoc =
     (includes_str (toLowerCase (city dropLoc)) ''guwahati'' \<or> startsWith (pincode dropLoc) ''781'')"

definition isRegionalZone :: "LocationData \<Rightarrow> bool" where
  "isRegionalZone dropLoc =
     (let destStateLower = toLowerCase (state dropLoc)
      in destStateLower \<in> set [''jammu & kashmir'', ''himachal pradesh'', ''jammu and kashmir'']
         \<or> (getZone destStateLower = Some (Code ''NE'') \<and> \<not> isGuwahati dropLoc))"

definition regionalOf :: "LogisticsSettings \<Rightarrow> LocationData \<Rightarrow> rat \<Rightarrow> rat" where
  "regionalOf s dropLoc chargeable =
     (if isRegionalZone dropLoc then regionalSurcharge s * chargeable else 0)"

text \<open>The \<open>otherSurcharges\<close> accumulator, one \<open>+=\<close> after the other.\<close>

definition otherOf :: "LogisticsSettings \<Rightarrow> ShipmentOptions \<Rightarrow> rat \<Rightarrow> rat" where
  "otherOf s opts chargeable =
     (let o0 = 0;
          o1 = (if isHoliday opts then o0 + 1000 else o0);
          o2 = (if isCsd opts then o1 + csdCharge s else o1);
          o3 = (if isTimeSpecific opts
                then o2 + max (timeSpecificMin s) (timeSpecificPerKg s * chargeable) else o2);
          o4 = (if isMallDelivery opts
                then o3 + max (mallDeliveryMin s) (mallDeliveryPerKg s * chargeable) else o3);
          o5 = (if isReattempt opts
                then o4 + max (reattemptMin s) (reattemptPerKg s * chargeable) else o4)
      in o5)"

definition codOf :: "LogisticsSettings \<Rightarrow> ShipmentOptions \<Rightarrow> rat \<Rightarrow> rat" where
  "codOf s opts invValue =
     (if isCod opts then max (codMin s) (invValue * (codPercent s / 100)) else 0)"

definition rovOf :: "LogisticsSettings \<Rightarrow> ShipmentOptions \<Rightarrow> rat \<Rightarrow> rat" where
  "rovOf s opts invValue =
     (if isRov opts then max (rovMin s) (invValue * (rovPercent s / 100)) else 0)"

text \<open>
  The sum \<open>basicFreight + fuelSurcharge + awb + odaCharge + handlingCharge +
  regionalCharge + otherSurcharges + codCharge + rovCharge\<close> that \<open>Math.round\<close> is
  applied to.
\<close>

definition unroundedTotal ::
  "LogisticsSettings \<Rightarrow> ShipmentOptions \<Rightarrow> LocationData \<Rightarrow> bool \<Rightarrow> rat \<Rightarrow> rat \<Rightarrow> rat \<Rightarrow> rat" where
  "unroundedTotal s opts dropLoc oda invValue rate chargeable =
     (let freight = basicFreight rate chargeable (minFreightAmount s)
      in freight + fuelOf s freight + LogisticsSettings.awbCharge s
         + odaOf s oda chargeable + handlingOf s chargeable + regionalOf s dropLoc chargeable
         + otherOf s opts chargeable + codOf s opts invValue + rovOf s opts invValue)"

subsection \<open>The result record\<close>

text \<open>
  The object literal returned at the end, for numbers that are all finite:
  \<open>zf\<close>, \<open>zt\<close> the zones, \<open>po\<close>, \<open>dl\<close> the ODA flags of the legs.
\<close>

definition resultOf ::
  "LogisticsSettings \<Rightarrow> ShipmentOptions \<Rightarrow> LocationData \<Rightarrow> zone_value \<Rightarrow> zone_value
     \<Rightarrow> bool \<Rightarrow> bool \<Rightarrow> rat \<Rightarrow> rat \<Rightarrow> rat \<Rightarrow> rat \<Rightarrow> CalculationResult" where
  "resultOf s opts dropLoc zf zt po dl deadWt invValue volumetricWt rate =
     (let oda = (po \<or> dl);
          chargeable = chargeableOf deadWt volumetricWt (minChargeableWeight s);
          freight = basicFreight rate chargeable (minFreightAmount s)
      in \<lparr> volumetricWeight = toFixed2 volumetricWt,
           deadWeight = deadWt,
           chargeableWeight = chargeable,
           zoneFrom = zf,
           zoneTo = zt,
           baseRate = rate,
           freightCharge = toFixed2 freight,
           fuelSurcharge = toFixed2 (fuelOf s freight),
           awbCharge = LogisticsSettings.awbCharge s,
           odaCharge = toFixed2 (odaOf s oda chargeable),
           handlingCharge = toFixed2 (handlingOf s chargeable),
           rovCharge = toFixed2 (rovOf s opts invValue),
           codCharge = toFixed2 (codOf s opts invValue),
           regionalCharge = toFixed2 (regionalOf s dropLoc chargeable),
           otherSurcharges = toFixed2 (otherOf s opts chargeable),
           totalCost = Math_round (unroundedTotal s opts dropLoc oda invValue rate chargeable),
           isOda = oda,
           pickupOda = po,
           deliveryOda = dl,
           warnings = [] \<rparr>)"

subsection \<open>The whole function\<close>

text \<open>
  The arguments are the memo's dependencies. The two \<open>return null\<close> statements come
  first, as in the source; a run past them ends in a result record, which is
  \<open>Unmodelled\<close> when the parsed weight or declared value is infinite, the volumetric
  weight is infinite (a positive volume over the divisor 0), or the rate is read
  through the prototype chain of the rate table.
\<close>

definition calculate ::
  "LocationData \<Rightarrow> LocationData \<Rightarrow> string \<Rightarrow> string \<Rightarrow> Dimensions \<Rightarrow> DimensionUnit
     \<Rightarrow> LogisticsSettings \<Rightarrow> ShipmentOptions \<Rightarrow> CalculationResult outcome" where
  "calculate pickup dropLoc weight invoiceValue dimensions dimUnit settings opts =
     (if state pickup = [] \<or> state dropLoc = [] then Null
      else
        (case (zoneOverride (serviceabilityMap settings) (pincode pickup) (getZone (state pickup)),
               zoneOverride (serviceabilityMap settings) (pincode dropLoc) (getZone (state dropLoc))) of
           (Some zf, Some zt) \<Rightarrow>
             (case (orZero (parseFloat weight),
                    orZero (parseFloat invoiceValue),
                    volumetricWtOf (volume dimensions dimUnit) (volumetricDivisor settings),
                    rateLookup zf zt) of
                (Some deadWt, Some invValue, Some volumetricWt, Some rate) \<Rightarrow>
                  Result (resultOf settings opts dropLoc zf zt
                            (pickupOdaOf (serviceabilityMap settings) (pincode pickup))
                            (deliveryOdaOf (serviceabilityMap settings) (pincode dropLoc))
                            deadWt invValue volumetricWt rate)
              | _ \<Rightarrow> Unmodelled)
         | _ \<Rightarrow> Null))"

subsection \<open>The sum of the line items\<close>


section \<open>Properties\<close>

subsection \<open>Rounding\<close>



lemma half_up_mono:
  fixes a b :: rat
  shows "a \<le> b \<Longrightarrow> (of_int \<lfloor>a * 100 + 1 / 2\<rfloor> :: rat) \<le> of_int \<lfloor>b * 100 + 1 / 2\<rfloor>"
  by (simp only: of_int_le_iff) (rule floor_mono, simp)

lemma half_up_nonneg:
  fixes a :: rat
  shows "0 \<le> a \<Longrightarrow> (0::rat) \<le> of_int \<lfloor>a * 100 + 1 / 2\<rfloor>"
  by (simp only: of_int_0_le_iff zero_le_floor)

lemma toFixed2_mono: "x \<le> y \<Longrightarrow> toFixed2 x \<le> toFixed2 y"
proof -
  assume xy: "x \<le> y"
  define kx :: rat where "kx = of_int \<lfloor>x * 100 + 1 / 2\<rfloor>"
  define ky :: rat where "ky = of_int \<lfloor>y * 100 + 1 / 2\<rfloor>"
  define nx :: rat where "nx = of_int \<lfloor>- x * 100 + 1 / 2\<rfloor>"
  define ny :: rat where "ny = of_int \<lfloor>- y * 100 + 1 / 2\<rfloor>"
  have tx: "toFixed2 x = (if x < 0 then - (nx / 100) else kx / 100)"
    by (simp only: toFixed2_def kx_def nx_def)
  have ty: "toFixed2 y = (if y < 0 then - (ny / 100) else ky / 100)"
    by (simp only: toFixed2_def ky_def ny_def)
  have 1: "kx \<le> ky" unfolding kx_def ky_def using xy by (rule half_up_mono)
  have 2: "ny \<le> nx" unfolding nx_def ny_def using half_up_mono [of "- y" "- x"] xy by simp
  have 3: "x < 0 \<Longrightarrow> 0 \<le> nx" unfolding nx_def using half_up_nonneg [of "- x"] by simp
  have 4: "\<not> y < 0 \<Longrightarrow> 0 \<le> ky" unfolding ky_def using half_up_nonneg [of y] by simp
  show ?thesis
  proof (cases "y < 0")
    case True
    with xy have "x < 0" by simp
    with True 2 show ?thesis by (simp add: tx ty)
  next
    case False
    show ?thesis
    proof (cases "x < 0")
      case True
      with False 3 4 have "- (nx / 100) \<le> ky / 100" by simp
      with True False show ?thesis by (simp add: tx ty)
    next
      case xf: False
      with False 1 show ?thesis by (simp add: tx ty)
    qed
  qed
qed





lemma toFixed2_zero: "toFixed2 0 = 0"
proof -
  have "\<lfloor>(1::rat) / 2\<rfloor> = 0" by linarith
  then show ?thesis by (simp add: toFixed2_def)
qed

lemma toFixed2_add_1000:
  assumes "0 \<le> x" shows "toFixed2 (x + 1000) = toFixed2 x + 1000"
proof -
  have "(x + 1000) * 100 + 1 / 2 = (x * 100 + 1 / 2) + of_int 100000" by simp
  then have "\<lfloor>(x + 1000) * 100 + 1 / 2\<rfloor> = \<lfloor>x * 100 + 1 / 2\<rfloor> + 100000"
    by (simp only: floor_add_int)
  with assms show ?thesis by (simp add: toFixed2_def add_divide_distrib)
qed

subsection \<open>Strings\<close>

lemma lowerChar_not_upper: "\<not> isUpper (lowerChar c)"
proof (cases "isUpper c")
  case False
  then show ?thesis by (simp add: lowerChar_def)
next
  case True
  define n :: int where "n = of_char c"
  from True have rng: "(65 \<le> n \<and> n \<le> 90) \<or> (192 \<le> n \<and> n \<le> 222 \<and> n \<noteq> 215)"
    by (simp only: isUpper_def Let_def n_def)
  have l: "lowerChar c = char_of (n + 32)"
    using True by (simp only: lowerChar_def n_def if_True)
  have "(of_char (char_of (n + 32)) :: int) = (n + 32) mod 256"
    by (rule of_char_of)
  also from rng have "(n + 32) mod 256 = n + 32" by auto
  finally have m: "(of_char (lowerChar c) :: int) = n + 32" by (simp only: l)
  from rng show ?thesis
    by (simp only: isUpper_def Let_def m) arith
qed

lemma toLowerCase_idem: "toLowerCase (toLowerCase s) = toLowerCase s"
proof -
  have "lowerChar (lowerChar c) = lowerChar c" for c
    using lowerChar_not_upper [of c] by (simp only: lowerChar_def [of "lowerChar c"] if_False)
  then show ?thesis by (simp add: toLowerCase_def)
qed

lemma toLowerCase_Nil_iff: "toLowerCase s = [] \<longleftrightarrow> s = []"
  by (simp add: toLowerCase_def)

lemma getZone_toLowerCase: "getZone (toLowerCase s) = getZone s"
  by (simp only: getZone_def toLowerCase_idem toLowerCase_Nil_iff)

lemma includes_str_iff: "includes_str s t \<longleftrightarrow> (\<exists>u v. s = u @ t @ v)"
proof (induction s)
  case Nil
  then show ?case by auto
next
  case (Cons c s)
  have "take (length t) (c # s) = t \<longleftrightarrow> (\<exists>v. c # s = t @ v)"
    by (metis append_eq_conv_conj append_take_drop_id)
  moreover have "(\<exists>u v. c # s = u @ t @ v) \<longleftrightarrow> (\<exists>v. c # s = t @ v) \<or> (\<exists>u v. s = u @ t @ v)"
  proof
    assume "\<exists>u v. c # s = u @ t @ v"
    then obtain u v where uv: "c # s = u @ t @ v" by blast
    show "(\<exists>v. c # s = t @ v) \<or> (\<exists>u v. s = u @ t @ v)"
    proof (cases u)
      case Nil
      with uv show ?thesis by auto
    next
      case (Cons a u')
      with uv have "s = u' @ t @ v" by simp
      then show ?thesis by blast
    qed
  next
    assume "(\<exists>v. c # s = t @ v) \<or> (\<exists>u v. s = u @ t @ v)"
    then show "\<exists>u v. c # s = u @ t @ v"
    proof
      assume "\<exists>v. c # s = t @ v"
      then obtain v where "c # s = [] @ t @ v" by auto
      then show ?thesis by blast
    next
      assume "\<exists>u v. s = u @ t @ v"
      then obtain u v where "c # s = (c # u) @ t @ v" by auto
      then show ?thesis by blast
    qed
  qed
  ultimately show ?case using Cons.IH by simp
qed

lemma startsWith_iff: "startsWith s t \<longleftrightarrow> prefix t s"
  unfolding startsWith_def prefix_def
  by (metis append_eq_conv_conj append_take_drop_id)

subsection \<open>The shape of a run\<close>

text \<open>
  A run that yields a result record has passed every check, and the record is
  \<open>resultOf\<close> at the values found on the way.
\<close>

lemma calculate_ResultD:
  assumes "calculate pickup dropLoc weight invoiceValue dimensions dimUnit settings opts = Result r"
  shows "\<exists>zf zt deadWt invValue volumetricWt rate.
           state pickup \<noteq> [] \<and> state dropLoc \<noteq> []
         \<and> zoneOverride (serviceabilityMap settings) (pincode pickup) (getZone (state pickup)) = Some zf
         \<and> zoneOverride (serviceabilityMap settings) (pincode dropLoc) (getZone (state dropLoc)) = Some zt
         \<and> orZero (parseFloat weight) = Some deadWt
         \<and> orZero (parseFloat invoiceValue) = Some invValue
         \<and> volumetricWtOf (volume dimensions dimUnit) (volumetricDivisor settings) = Some volumetricWt
         \<and> rateLookup zf zt = Some rate
         \<and> r = resultOf settings opts dropLoc zf zt
                   (pickupOdaOf (serviceabilityMap settings) (pincode pickup))
                   (deliveryOdaOf (serviceabilityMap settings) (pincode dropLoc))
                   deadWt invValue volumetricWt rate"
  using assms unfolding calculate_def
  by (auto split: if_splits option.splits prod.splits)

lemma calculate_Null_iff:
  "calculate pickup dropLoc weight invoiceValue dimensions dimUnit settings opts = Null
   \<longleftrightarrow> state pickup = [] \<or> state dropLoc = []
     \<or> zoneOverride (serviceabilityMap settings) (pincode pickup) (getZone (state pickup)) = None
     \<or> zoneOverride (serviceabilityMap settings) (pincode dropLoc) (getZone (state dropLoc)) = None"
  unfolding calculate_def
  by (auto split: if_splits option.splits prod.splits)

lemma resultOf_simps:
  "volumetricWeight (resultOf s opts dropLoc zf zt po dl deadWt invValue v rate) = toFixed2 v"
  "deadWeight (resultOf s opts dropLoc zf zt po dl deadWt invValue v rate) = deadWt"
  "chargeableWeight (resultOf s opts dropLoc zf zt po dl deadWt invValue v rate)
     = chargeableOf deadWt v (minChargeableWeight s)"
  "zoneFrom (resultOf s opts dropLoc zf zt po dl deadWt invValue v rate) = zf"
  "zoneTo (resultOf s opts dropLoc zf zt po dl deadWt invValue v rate) = zt"
  "baseRate (resultOf s opts dropLoc zf zt po dl deadWt invValue v rate) = rate"
  "isOda (resultOf s opts dropLoc zf zt po dl deadWt invValue v rate) = (po \<or> dl)"
  "pickupOda (resultOf s opts dropLoc zf zt po dl deadWt invValue v rate) = po"
  "deliveryOda (resultOf s opts dropLoc zf zt po dl deadWt invValue v rate) = dl"
  "awbCharge (resultOf s opts dropLoc zf zt po dl deadWt invValue v rate) = LogisticsSettings.awbCharge s"
  by (simp_all add: resultOf_def Let_def)

lemma resultOf_amounts:
  fixes r defines "c \<equiv> chargeableWeight r"
  assumes "r = resultOf s opts dropLoc zf zt po dl deadWt invValue v rate"
  shows "freightCharge r = toFixed2 (basicFreight (baseRate r) c (minFreightAmount s))"
    "fuelSurcharge r = toFixed2 (fuelOf s (basicFreight (baseRate r) c (minFreightAmount s)))"
    "odaCharge r = toFixed2 (odaOf s (isOda r) c)"
    "handlingCharge r = toFixed2 (handlingOf s c)"
    "regionalCharge r = toFixed2 (regionalOf s dropLoc c)"
    "otherSurcharges r = toFixed2 (otherOf s opts c)"
    "codCharge r = toFixed2 (codOf s opts invValue)"
    "rovCharge r = toFixed2 (rovOf s opts invValue)"
    "totalCost r = Math_round (unroundedTotal s opts dropLoc (isOda r) invValue (baseRate r) c)"
  using assms by (simp_all add: resultOf_def Let_def)

lemma calculate_line_items:
  assumes "calculate pickup dropLoc weight invoiceValue dimensions dimUnit s opts = Result r"
  shows "freightCharge r
           = toFixed2 (basicFreight (baseRate r) (chargeableWeight r) (minFreightAmount s))"
    and "fuelSurcharge r
           = toFixed2 (fuelOf s (basicFreight (baseRate r) (chargeableWeight r) (minFreightAmount s)))"
    and "odaCharge r = toFixed2 (odaOf s (isOda r) (chargeableWeight r))"
    and "handlingCharge r = toFixed2 (handlingOf s (chargeableWeight r))"
    and "regionalCharge r = toFixed2 (regionalOf s dropLoc (chargeableWeight r))"
    and "otherSurcharges r = toFixed2 (otherOf s opts (chargeableWeight r))"
    and "awbCharge r = LogisticsSettings.awbCharge s"
proof -
  from calculate_ResultD [OF assms] obtain zf zt po dl deadWt invValue v rate where
    r: "r = resultOf s opts dropLoc zf zt po dl deadWt invValue v rate"
    by blast
  note am = resultOf_amounts [OF r]
  show "freightCharge r
           = toFixed2 (basicFreight (baseRate r) (chargeableWeight r) (minFreightAmount s))"
    by (rule am(1))
  show "fuelSurcharge r
           = toFixed2 (fuelOf s (basicFreight (baseRate r) (chargeableWeight r) (minFreightAmount s)))"
    by (rule am(2))
  show "odaCharge r = toFixed2 (odaOf s (isOda r) (chargeableWeight r))"
    by (rule am(3))
  show "handlingCharge r = toFixed2 (handlingOf s (chargeableWeight r))"
    by (rule am(4))
  show "regionalCharge r = toFixed2 (regionalOf s dropLoc (chargeableWeight r))"
    by (rule am(5))
  show "otherSurcharges r = toFixed2 (otherOf s opts (chargeableWeight r))"
    by (rule am(6))
  show "awbCharge r = LogisticsSettings.awbCharge s"
    by (simp add: r resultOf_simps)
qed

text \<open>The run used to illustrate the theorems below: the worked example of the specification.\<close>

lemma example_run:
  "calculate
     \<lparr> pincode = ''110001'', city = ''New Delhi'', state = ''Delhi'', loading = False \<rparr>
     \<lparr> pincode = ''400001'', city = ''Mumbai'', state = ''Maharashtra'', loading = False \<rparr>
     ''15'' ''''
     \<lparr> length_dim = Some 40, breadth = Some 30, height = Some 20 \<rparr> CM
     DEFAULT_SETTINGS DEFAULT_OPTIONS
   = Result
      \<lparr> volumetricWeight = 5.33, deadWeight = 15, chargeableWeight = 20,
        zoneFrom = Code ''N1'', zoneTo = Code ''W2'', baseRate = 12.5,
        freightCharge = 350, fuelSurcharge = 87.5, awbCharge = 100,
        odaCharge = 0, handlingCharge = 0, rovCharge = 0, codCharge = 0,
        regionalCharge = 0, otherSurcharges = 0, totalCost = 538,
        isOda = False, pickupOda = False, deliveryOda = False, warnings = [] \<rparr>"
  by code_simp

text \<open>
  The same shipment with a serviceability table loaded: the pickup code has a record
  with zone S2, the drop code has none.
\<close>

lemma example_run_with_table:
  "calculate
     \<lparr> pincode = ''110001'', city = ''New Delhi'', state = ''Delhi'', loading = False \<rparr>
     \<lparr> pincode = ''400001'', city = ''Mumbai'', state = ''Maharashtra'', loading = False \<rparr>
     ''15'' ''''
     \<lparr> length_dim = Some 40, breadth = Some 30, height = Some 20 \<rparr> CM
     (DEFAULT_SETTINGS\<lparr>serviceabilityMap := Some
        [''110001'' \<mapsto> \<lparr> pickupAvailable = True, deliveryAvailable = True, zone = ''S2'',
                        ServiceabilityData.city = ''New Delhi'',
                        ServiceabilityData.state = ''Delhi'' \<rparr>]\<rparr>)
     DEFAULT_OPTIONS
   = Result
      \<lparr> volumetricWeight = 5.33, deadWeight = 15, chargeableWeight = 20,
        zoneFrom = Code ''S2'', zoneTo = Code ''W2'', baseRate = 17.55,
        freightCharge = 351, fuelSurcharge = 87.75, awbCharge = 100,
        odaCharge = 1000, handlingCharge = 0, rovCharge = 0, codCharge = 0,
        regionalCharge = 0, otherSurcharges = 0, totalCost = 1539,
        isOda = True, pickupOda = False, deliveryOda = True, warnings = [] \<rparr>"
  by code_simp

subsection \<open>The rate table\<close>



subsection \<open>Total cost\<close>




subsection \<open>Chargeable weight\<close>




subsection \<open>Base freight\<close>



subsection \<open>Handling surcharge\<close>

text \<open>
  C4: the handling surcharge is 0 up to 70 kg of chargeable weight (and on to any
  weight below 71), \<open>handling70to200\<close> times the weight from 71 to 200 kg inclusive, and
  \<open>handlingAbove200\<close> times the weight above 200 kg; one chargeable weight falls in
  one band only. At 70 it is exactly 0; at 71 it is 71 times the first rate, which is
  positive when that rate is; at 200.01 it is charged at the second rate. The
  \<open>handlingCharge\<close> of a result record is this amount at the record's chargeable
  weight, shown with two decimals.
\<close>

theorem handling_bands:
  "(w \<le> 70 \<longrightarrow> handlingOf s w = 0)
   \<and> (70 < w \<and> w < 71 \<longrightarrow> handlingOf s w = 0)
   \<and> (71 \<le> w \<and> w \<le> 200 \<longrightarrow> handlingOf s w = handling70to200 s * w)
   \<and> (200 < w \<longrightarrow> handlingOf s w = handlingAbove200 s * w)
   \<and> handlingOf s 70 = 0
   \<and> handlingOf s 71 = handling70to200 s * 71
   \<and> (0 < handling70to200 s \<longrightarrow> 0 < handlingOf s 71)
   \<and> handlingOf s 200.01 = handlingAbove200 s * 200.01
   \<and> (calculate pickup dropLoc weight invoiceValue dimensions dimUnit s opts = Result res \<longrightarrow>
        handlingCharge res = toFixed2 (handlingOf s (chargeableWeight res)))"
proof -
  have run: "handlingCharge res = toFixed2 (handlingOf s (chargeableWeight res))"
    if "calculate pickup dropLoc weight invoiceValue dimensions dimUnit s opts = Result res"
    using that by (rule calculate_line_items(4))
  then show ?thesis by (simp add: handlingOf_def)
qed

theorem handling_bands_witness:
  "handlingOf DEFAULT_SETTINGS 70 = 0
   \<and> (0::rat) < handling70to200 DEFAULT_SETTINGS
   \<and> handlingOf DEFAULT_SETTINGS 71 = 213 \<and> 0 < handlingOf DEFAULT_SETTINGS 71
   \<and> handlingOf DEFAULT_SETTINGS 200 = 600
   \<and> handlingOf DEFAULT_SETTINGS 200.01 = 800.04
   \<and> (0::rat) = toFixed2 (handlingOf DEFAULT_SETTINGS 20)"
proof -
  let ?pickup = "\<lparr> pincode = ''110001'', city = ''New Delhi'', state = ''Delhi'', loading = False \<rparr>"
  let ?drop = "\<lparr> pincode = ''400001'', city = ''Mumbai'', state = ''Maharashtra'', loading = False \<rparr>"
  let ?dims = "\<lparr> length_dim = Some 40, breadth = Some 30, height = Some 20 \<rparr>"
  let ?r = "\<lparr> volumetricWeight = 5.33, deadWeight = 15, chargeableWeight = 20,
        zoneFrom = Code ''N1'', zoneTo = Code ''W2'', baseRate = 12.5,
        freightCharge = 350, fuelSurcharge = 87.5, awbCharge = 100,
        odaCharge = 0, handlingCharge = 0, rovCharge = 0, codCharge = 0,
        regionalCharge = 0, otherSurcharges = 0, totalCost = 538,
        isOda = False, pickupOda = False, deliveryOda = False, warnings = [] \<rparr>"
  have h: "handling70to200 DEFAULT_SETTINGS = 3" "handlingAbove200 DEFAULT_SETTINGS = 4"
    by (simp_all add: DEFAULT_SETTINGS_def)
  from handling_bands [of 200 DEFAULT_SETTINGS] have a: "handlingOf DEFAULT_SETTINGS 200 = 600"
    by (simp add: h)
  note t = handling_bands
      [where w = 70 and s = DEFAULT_SETTINGS
         and pickup = ?pickup and dropLoc = ?drop and weight = "''15''"
         and invoiceValue = "''''" and dimensions = ?dims and dimUnit = CM
         and opts = DEFAULT_OPTIONS and res = ?r]
  from t example_run
  have "handlingCharge ?r = toFixed2 (handlingOf DEFAULT_SETTINGS (chargeableWeight ?r))"
    by blast
  then have b: "(0::rat) = toFixed2 (handlingOf DEFAULT_SETTINGS 20)" by simp
  from t have c: "handlingOf DEFAULT_SETTINGS 70 = 0"
    and d: "handlingOf DEFAULT_SETTINGS 71 = handling70to200 DEFAULT_SETTINGS * 71"
    and e: "handlingOf DEFAULT_SETTINGS 200.01 = handlingAbove200 DEFAULT_SETTINGS * 200.01"
    by blast+
  from a b c d e show ?thesis by (simp add: h)
qed

subsection \<open>Out-of-delivery-area surcharge\<close>

text \<open>
  C5: the ODA surcharge is 0 when the shipment is not ODA and
  \<open>max odaMin (odaPerKg * chargeable weight)\<close>, hence at least \<open>odaMin\<close>, when it is.
  In a result record the flags of the two legs are read from the serviceability
  table, \<open>isOda\<close> is their disjunction and \<open>odaCharge\<close> is that surcharge shown with
  two decimals: 0 when \<open>isOda\<close> is false, at least \<open>odaMin\<close> (to two decimals) when it
  is true. With no table loaded (\<open>serviceabilityMap\<close> is \<open>null\<close>) no leg is marked,
  \<open>isOda\<close> is false and \<open>odaCharge\<close> is 0, on every input.
\<close>

theorem oda_surcharge:
  "odaOf s False w = 0
   \<and> odaOf s True w = max (odaMin s) (odaPerKg s * w)
   \<and> odaMin s \<le> odaOf s True w
   \<and> pickupOdaOf None pin = False
   \<and> deliveryOdaOf None pin = False
   \<and> (calculate pickup dropLoc weight invoiceValue dimensions dimUnit s opts = Result r \<longrightarrow>
         pickupOda r = pickupOdaOf (serviceabilityMap s) (pincode pickup)
       \<and> deliveryOda r = deliveryOdaOf (serviceabilityMap s) (pincode dropLoc)
       \<and> isOda r = (pickupOda r \<or> deliveryOda r)
       \<and> odaCharge r = toFixed2 (odaOf s (isOda r) (chargeableWeight r))
       \<and> (\<not> isOda r \<longrightarrow> odaCharge r = 0)
       \<and> (isOda r \<longrightarrow> toFixed2 (odaMin s) \<le> odaCharge r)
       \<and> (serviceabilityMap s = None \<longrightarrow>
             \<not> pickupOda r \<and> \<not> deliveryOda r \<and> \<not> isOda r \<and> odaCharge r = 0))"
proof -
  have steps: "odaOf s False w = 0" "odaOf s True w = max (odaMin s) (odaPerKg s * w)"
    "odaMin s \<le> odaOf s True w" "pickupOdaOf None pin = False" "deliveryOdaOf None pin = False"
    by (simp_all add: odaOf_def pickupOdaOf_def deliveryOdaOf_def)
  have run: "pickupOda r = pickupOdaOf (serviceabilityMap s) (pincode pickup)
       \<and> deliveryOda r = deliveryOdaOf (serviceabilityMap s) (pincode dropLoc)
       \<and> isOda r = (pickupOda r \<or> deliveryOda r)
       \<and> odaCharge r = toFixed2 (odaOf s (isOda r) (chargeableWeight r))
       \<and> (\<not> isOda r \<longrightarrow> odaCharge r = 0)
       \<and> (isOda r \<longrightarrow> toFixed2 (odaMin s) \<le> odaCharge r)
       \<and> (serviceabilityMap s = None \<longrightarrow>
             \<not> pickupOda r \<and> \<not> deliveryOda r \<and> \<not> isOda r \<and> odaCharge r = 0)"
    if "calculate pickup dropLoc weight invoiceValue dimensions dimUnit s opts = Result r"
  proof -
    from calculate_ResultD [OF that] obtain zf zt deadWt invValue v rate where
      r: "r = resultOf s opts dropLoc zf zt
                (pickupOdaOf (serviceabilityMap s) (pincode pickup))
                (deliveryOdaOf (serviceabilityMap s) (pincode dropLoc))
                deadWt invValue v rate"
      by blast
    have p: "pickupOda r = pickupOdaOf (serviceabilityMap s) (pincode pickup)"
      and d: "deliveryOda r = deliveryOdaOf (serviceabilityMap s) (pincode dropLoc)"
      and i: "isOda r = (pickupOda r \<or> deliveryOda r)"
      by (simp_all add: r resultOf_simps)
    have c: "odaCharge r = toFixed2 (odaOf s (isOda r) (chargeableWeight r))"
      by (rule resultOf_amounts(3) [OF r])
    have z: "odaCharge r = 0" if "\<not> isOda r"
      using that c by (simp add: odaOf_def toFixed2_zero)
    have g: "toFixed2 (odaMin s) \<le> odaCharge r" if "isOda r"
    proof -
      have "odaMin s \<le> odaOf s True (chargeableWeight r)" by (simp add: odaOf_def)
      then have "toFixed2 (odaMin s) \<le> toFixed2 (odaOf s True (chargeableWeight r))"
        by (rule toFixed2_mono)
      with that c show ?thesis by simp
    qed
    have n: "\<not> pickupOda r \<and> \<not> deliveryOda r" if "serviceabilityMap s = None"
      using that p d by (simp add: pickupOdaOf_def deliveryOdaOf_def)
    from p d i c z g n show ?thesis by blast
  qed
  from steps run show ?thesis by blast
qed

theorem oda_surcharge_witness:
  "serviceabilityMap DEFAULT_SETTINGS = None
   \<and> odaOf DEFAULT_SETTINGS True 20 = 1000
   \<and> odaOf DEFAULT_SETTINGS True 200 = 1600
   \<and> odaMin DEFAULT_SETTINGS \<le> odaOf DEFAULT_SETTINGS True 200
   \<and> (0::rat) = toFixed2 (odaOf DEFAULT_SETTINGS False 20)
   \<and> (1000::rat) = toFixed2 (odaOf DEFAULT_SETTINGS True 20)
   \<and> toFixed2 (odaMin DEFAULT_SETTINGS) \<le> (1000::rat)"
proof -
  let ?pickup = "\<lparr> pincode = ''110001'', city = ''New Delhi'', state = ''Delhi'', loading = False \<rparr>"
  let ?drop = "\<lparr> pincode = ''400001'', city = ''Mumbai'', state = ''Maharashtra'', loading = False \<rparr>"
  let ?dims = "\<lparr> length_dim = Some 40, breadth = Some 30, height = Some 20 \<rparr>"
  let ?r = "\<lparr> volumetricWeight = 5.33, deadWeight = 15, chargeableWeight = 20,
        zoneFrom = Code ''N1'', zoneTo = Code ''W2'', baseRate = 12.5,
        freightCharge = 350, fuelSurcharge = 87.5, awbCharge = 100,
        odaCharge = 0, handlingCharge = 0, rovCharge = 0, codCharge = 0,
        regionalCharge = 0, otherSurcharges = 0, totalCost = 538,
        isOda = False, pickupOda = False, deliveryOda = False, warnings = [] \<rparr>"
  let ?s' = "DEFAULT_SETTINGS\<lparr>serviceabilityMap := Some
        [''110001'' \<mapsto> \<lparr> pickupAvailable = True, deliveryAvailable = True, zone = ''S2'',
                        ServiceabilityData.city = ''New Delhi'',
                        ServiceabilityData.state = ''Delhi'' \<rparr>]\<rparr>"
  let ?r' = "\<lparr> volumetricWeight = 5.33, deadWeight = 15, chargeableWeight = 20,
        zoneFrom = Code ''S2'', zoneTo = Code ''W2'', baseRate = 17.55,
        freightCharge = 351, fuelSurcharge = 87.75, awbCharge = 100,
        odaCharge = 1000, handlingCharge = 0, rovCharge = 0, codCharge = 0,
        regionalCharge = 0, otherSurcharges = 0, totalCost = 1539,
        isOda = True, pickupOda = False, deliveryOda = True, warnings = [] \<rparr>"
  have none: "serviceabilityMap DEFAULT_SETTINGS = None"
    by (simp add: DEFAULT_SETTINGS_def)
  have vals: "odaMin DEFAULT_SETTINGS = 1000" "odaPerKg DEFAULT_SETTINGS = 8"
    by (simp_all add: DEFAULT_SETTINGS_def)
  have same: "odaOf ?s' b w = odaOf DEFAULT_SETTINGS b w" "odaMin ?s' = odaMin DEFAULT_SETTINGS"
    for b w
    by (simp_all add: odaOf_def)
  note t = oda_surcharge
      [where s = DEFAULT_SETTINGS and w = 200
         and pickup = ?pickup and dropLoc = ?drop and weight = "''15''"
         and invoiceValue = "''''" and dimensions = ?dims and dimUnit = CM
         and opts = DEFAULT_OPTIONS and r = ?r]
  note t' = oda_surcharge
      [where s = ?s' and w = 20
         and pickup = ?pickup and dropLoc = ?drop and weight = "''15''"
         and invoiceValue = "''''" and dimensions = ?dims and dimUnit = CM
         and opts = DEFAULT_OPTIONS and r = ?r']
  from t example_run
  have a: "odaOf DEFAULT_SETTINGS True 200
             = max (odaMin DEFAULT_SETTINGS) (odaPerKg DEFAULT_SETTINGS * 200)"
    and b: "odaMin DEFAULT_SETTINGS \<le> odaOf DEFAULT_SETTINGS True 200"
    and c: "odaCharge ?r = toFixed2 (odaOf DEFAULT_SETTINGS (isOda ?r) (chargeableWeight ?r))"
    by blast+
  from t' example_run_with_table
  have d: "odaOf ?s' True 20 = max (odaMin ?s') (odaPerKg ?s' * 20)"
    and e: "odaCharge ?r' = toFixed2 (odaOf ?s' (isOda ?r') (chargeableWeight ?r'))"
    and f: "isOda ?r' \<longrightarrow> toFixed2 (odaMin ?s') \<le> odaCharge ?r'"
    by blast+
  from d have d': "odaOf DEFAULT_SETTINGS True 20 = 1000"
    by (simp add: same vals)
  from a have a': "odaOf DEFAULT_SETTINGS True 200 = 1600"
    by (simp add: vals)
  from c have c': "(0::rat) = toFixed2 (odaOf DEFAULT_SETTINGS False 20)" by simp
  from e have e': "(1000::rat) = toFixed2 (odaOf DEFAULT_SETTINGS True 20)"
    by (simp add: same)
  from f have f': "toFixed2 (odaMin DEFAULT_SETTINGS) \<le> (1000::rat)"
    by (simp add: same)
  from none d' a' b c' e' f' show ?thesis by (intro conjI)
qed

subsection \<open>Regional surcharge\<close>

lemma regional_names_not_NE:
  "getZone ''jammu & kashmir'' \<noteq> Some (Code ''NE'')"
  "getZone ''jammu and kashmir'' \<noteq> Some (Code ''NE'')"
  "getZone ''himachal pradesh'' \<noteq> Some (Code ''NE'')"
  by code_simp+

lemma isRegionalZone_iff:
  "isRegionalZone d \<longleftrightarrow>
     toLowerCase (state d) = ''jammu & kashmir''
   \<or> toLowerCase (state d) = ''jammu and kashmir''
   \<or> toLowerCase (state d) = ''himachal pradesh''
   \<or> (getZone (state d) = Some (Code ''NE'')
       \<and> (\<nexists>u v. toLowerCase (city d) = u @ ''guwahati'' @ v)
       \<and> \<not> prefix ''781'' (pincode d))"
  unfolding isRegionalZone_def isGuwahati_def Let_def includes_str_iff startsWith_iff
    getZone_toLowerCase
  by auto

text \<open>
  C6: the regional surcharge before rounding is \<open>regionalSurcharge\<close> times the
  chargeable weight when the destination is regional and 0 otherwise. The
  destination is regional exactly when its state name, letter case aside, is
  Jammu \<open>&\<close> Kashmir (also spelt with \<open>and\<close>) or Himachal Pradesh, or when the state
  resolves to zone NE and neither the lower-cased city contains \<open>guwahati\<close> nor the
  postal code starts with 781. So Himachal Pradesh with city Shimla is charged (a
  non-zero amount when rate and weight are non-zero), and a state of zone NE with
  city Guwahati, or with postal code 781001, is not. The \<open>regionalCharge\<close> of a
  result record is this amount rounded to two decimals.
\<close>

theorem regional_surcharge_rule:
  "regionalOf s d w = (if isRegionalZone d then regionalSurcharge s * w else 0)
   \<and> (isRegionalZone d \<longleftrightarrow>
          toLowerCase (state d) = ''jammu & kashmir''
        \<or> toLowerCase (state d) = ''jammu and kashmir''
        \<or> toLowerCase (state d) = ''himachal pradesh''
        \<or> (getZone (state d) = Some (Code ''NE'')
            \<and> (\<nexists>u v. toLowerCase (city d) = u @ ''guwahati'' @ v)
            \<and> \<not> prefix ''781'' (pincode d)))
   \<and> regionalOf s \<lparr> pincode = p, city = ''Shimla'', state = ''Himachal Pradesh'', loading = l \<rparr> w
       = regionalSurcharge s * w
   \<and> (regionalSurcharge s \<noteq> 0 \<and> w \<noteq> 0 \<longrightarrow>
        regionalOf s \<lparr> pincode = p, city = ''Shimla'', state = ''Himachal Pradesh'', loading = l \<rparr> w
          \<noteq> 0)
   \<and> (getZone st = Some (Code ''NE'') \<longrightarrow>
          regionalOf s \<lparr> pincode = p, city = ''Guwahati'', state = st, loading = l \<rparr> w = 0
        \<and> regionalOf s \<lparr> pincode = ''781001'', city = c, state = st, loading = l \<rparr> w = 0)
   \<and> (calculate pickup dropLoc weight invoiceValue dimensions dimUnit s opts = Result r \<longrightarrow>
        regionalCharge r = toFixed2 (regionalOf s dropLoc (chargeableWeight r)))"
proof -
  let ?shimla = "\<lparr> pincode = p, city = ''Shimla'', state = ''Himachal Pradesh'', loading = l \<rparr>"
  let ?byCity = "\<lparr> pincode = p, city = ''Guwahati'', state = st, loading = l \<rparr>"
  let ?byCode = "\<lparr> pincode = ''781001'', city = c, state = st, loading = l \<rparr>"
  have hp: "toLowerCase ''Himachal Pradesh'' = ''himachal pradesh''" by code_simp
  have "isRegionalZone ?shimla"
    by (simp add: isRegionalZone_iff hp)
  then have shimla: "regionalOf s ?shimla w = regionalSurcharge s * w"
    by (simp add: regionalOf_def)
  have names: "toLowerCase st \<noteq> ''jammu & kashmir'' \<and> toLowerCase st \<noteq> ''jammu and kashmir''
      \<and> toLowerCase st \<noteq> ''himachal pradesh''" if "getZone st = Some (Code ''NE'')"
    using that regional_names_not_NE getZone_toLowerCase [of st] by metis
  have gw: "toLowerCase ''Guwahati'' = [] @ ''guwahati'' @ []" by code_simp
  have pc: "prefix ''781'' ''781001''" by (simp add: prefix_def)
  have "\<not> isRegionalZone ?byCity" if "getZone st = Some (Code ''NE'')"
    using names [OF that] gw by (simp only: isRegionalZone_iff) (simp, blast)
  moreover have "\<not> isRegionalZone ?byCode" if "getZone st = Some (Code ''NE'')"
    using names [OF that] pc by (simp add: isRegionalZone_iff)
  ultimately have ne: "regionalOf s ?byCity w = 0 \<and> regionalOf s ?byCode w = 0"
    if "getZone st = Some (Code ''NE'')"
    using that by (simp add: regionalOf_def)
  have run: "regionalCharge r = toFixed2 (regionalOf s dropLoc (chargeableWeight r))"
    if "calculate pickup dropLoc weight invoiceValue dimensions dimUnit s opts = Result r"
  proof -
    from calculate_ResultD [OF that] obtain zf zt po dl deadWt invValue v rate where
      "r = resultOf s opts dropLoc zf zt po dl deadWt invValue v rate"
      by blast
    then show ?thesis by (rule resultOf_amounts(5))
  qed
  have def: "regionalOf s d w = (if isRegionalZone d then regionalSurcharge s * w else 0)"
    by (simp add: regionalOf_def)
  from def isRegionalZone_iff [of d] shimla ne run show ?thesis
    by (simp only: simp_thms) auto
qed

theorem regional_surcharge_rule_witness:
  "getZone ''Assam'' = Some (Code ''NE'')
   \<and> regionalSurcharge DEFAULT_SETTINGS \<noteq> 0 \<and> (20::rat) \<noteq> 0
   \<and> regionalOf DEFAULT_SETTINGS
        \<lparr> pincode = ''171001'', city = ''Shimla'', state = ''Himachal Pradesh'', loading = False \<rparr> 20
       = 100
   \<and> regionalOf DEFAULT_SETTINGS
        \<lparr> pincode = ''785001'', city = ''Jorhat'', state = ''Assam'', loading = False \<rparr> 20
       = 100
   \<and> regionalOf DEFAULT_SETTINGS
        \<lparr> pincode = ''785001'', city = ''Guwahati'', state = ''Assam'', loading = False \<rparr> 20
       = 0
   \<and> regionalOf DEFAULT_SETTINGS
        \<lparr> pincode = ''781001'', city = ''Dispur'', state = ''Assam'', loading = False \<rparr> 20
       = 0
   \<and> calculate
        \<lparr> pincode = ''110001'', city = ''New Delhi'', state = ''Delhi'', loading = False \<rparr>
        \<lparr> pincode = ''171001'', city = ''Shimla'', state = ''Himachal Pradesh'', loading = False \<rparr>
        ''15'' ''''
        \<lparr> length_dim = Some 40, breadth = Some 30, height = Some 20 \<rparr> CM
        DEFAULT_SETTINGS DEFAULT_OPTIONS
      = Result
         \<lparr> volumetricWeight = 5.33, deadWeight = 15, chargeableWeight = 20,
           zoneFrom = Code ''N1'', zoneTo = Code ''N2'', baseRate = 8.5,
           freightCharge = 350, fuelSurcharge = 87.5, awbCharge = 100,
           odaCharge = 0, handlingCharge = 0, rovCharge = 0, codCharge = 0,
           regionalCharge = 100, otherSurcharges = 0, totalCost = 638,
           isOda = False, pickupOda = False, deliveryOda = False, warnings = [] \<rparr>
   \<and> (100::rat) = toFixed2 (regionalOf DEFAULT_SETTINGS
        \<lparr> pincode = ''171001'', city = ''Shimla'', state = ''Himachal Pradesh'', loading = False \<rparr> 20)"
proof -
  let ?pickup = "\<lparr> pincode = ''110001'', city = ''New Delhi'', state = ''Delhi'', loading = False \<rparr>"
  let ?shimla = "\<lparr> pincode = ''171001'', city = ''Shimla'', state = ''Himachal Pradesh'', loading = False \<rparr>"
  let ?jorhat = "\<lparr> pincode = ''785001'', city = ''Jorhat'', state = ''Assam'', loading = False \<rparr>"
  let ?byCity = "\<lparr> pincode = ''785001'', city = ''Guwahati'', state = ''Assam'', loading = False \<rparr>"
  let ?byCode = "\<lparr> pincode = ''781001'', city = ''Dispur'', state = ''Assam'', loading = False \<rparr>"
  let ?dims = "\<lparr> length_dim = Some 40, breadth = Some 30, height = Some 20 \<rparr>"
  let ?r = "\<lparr> volumetricWeight = 5.33, deadWeight = 15, chargeableWeight = 20,
           zoneFrom = Code ''N1'', zoneTo = Code ''N2'', baseRate = 8.5,
           freightCharge = 350, fuelSurcharge = 87.5, awbCharge = 100,
           odaCharge = 0, handlingCharge = 0, rovCharge = 0, codCharge = 0,
           regionalCharge = 100, otherSurcharges = 0, totalCost = 638,
           isOda = False, pickupOda = False, deliveryOda = False, warnings = [] \<rparr>"
  have z: "getZone ''Assam'' = Some (Code ''NE'')" by code_simp
  have v: "regionalSurcharge DEFAULT_SETTINGS = 5" by (simp add: DEFAULT_SETTINGS_def)
  have nz: "regionalSurcharge DEFAULT_SETTINGS \<noteq> 0" "(20::rat) \<noteq> 0" by (simp_all add: v)
  have j: "isRegionalZone ?jorhat" by code_simp
  have run: "calculate ?pickup ?shimla ''15'' '''' ?dims CM DEFAULT_SETTINGS DEFAULT_OPTIONS
               = Result ?r"
    by code_simp
  note t = regional_surcharge_rule
      [where s = DEFAULT_SETTINGS and d = ?jorhat and w = 20 and p = "''171001''" and l = False
         and st = "''Assam''" and c = "''Dispur''"
         and pickup = ?pickup and dropLoc = ?shimla and weight = "''15''"
         and invoiceValue = "''''" and dimensions = ?dims and dimUnit = CM
         and opts = DEFAULT_OPTIONS and r = ?r]
  note t' = regional_surcharge_rule
      [where s = DEFAULT_SETTINGS and w = 20 and p = "''785001''" and l = False
         and st = "''Assam''"]
  from t z run
  have a: "regionalOf DEFAULT_SETTINGS ?jorhat 20
             = (if isRegionalZone ?jorhat then regionalSurcharge DEFAULT_SETTINGS * 20 else 0)"
    and b: "regionalOf DEFAULT_SETTINGS ?shimla 20 = regionalSurcharge DEFAULT_SETTINGS * 20"
    and c: "regionalOf DEFAULT_SETTINGS ?byCode 20 = 0"
    and e: "regionalCharge ?r = toFixed2 (regionalOf DEFAULT_SETTINGS ?shimla (chargeableWeight ?r))"
    by blast+
  from t' z have d: "regionalOf DEFAULT_SETTINGS ?byCity 20 = 0"
    by blast
  from a j have a': "regionalOf DEFAULT_SETTINGS ?jorhat 20 = 100" by (simp add: v)
  from b have b': "regionalOf DEFAULT_SETTINGS ?shimla 20 = 100" by (simp add: v)
  from e have e': "(100::rat) = toFixed2 (regionalOf DEFAULT_SETTINGS ?shimla 20)" by simp
  from z nz b' a' d c run e' show ?thesis by (intro conjI)
qed

subsection \<open>Failure modes\<close>

text \<open>
  What does hold of the failure modes: \<open>null\<close> is returned exactly when a state name
  is empty or a zone variable is \<open>null\<close> after the override (\<open>calculate_Null_iff\<close>
  above); a weight, declared value or dimension that is not a number counts as 0
  in a run that yields a result; and \<open>getZone\<close> is \<open>null\<close> exactly for the empty name
  and for a name that is neither in the state table nor a property inherited by it.
\<close>

lemma volume_NaN:
  "length_dim d = None \<or> breadth d = None \<or> height d = None \<Longrightarrow> volume d u = None"
  by (auto simp add: volume_def inCm_def split: option.splits)

lemma non_numeric_fields_count_as_zero:
  assumes "calculate pickup dropLoc weight invoiceValue dimensions dimUnit s opts = Result r"
  shows "parseFloat weight = NaN \<Longrightarrow> deadWeight r = 0"
    and "volume dimensions dimUnit = None \<Longrightarrow> volumetricWeight r = 0"
    and "parseFloat invoiceValue = NaN \<Longrightarrow>
           codCharge r = toFixed2 (codOf s opts 0) \<and> rovCharge r = toFixed2 (rovOf s opts 0)"
proof -
  from calculate_ResultD [OF assms] obtain zf zt po dl deadWt invValue v rate where
    w: "orZero (parseFloat weight) = Some deadWt"
    and i: "orZero (parseFloat invoiceValue) = Some invValue"
    and v: "volumetricWtOf (volume dimensions dimUnit) (volumetricDivisor s) = Some v"
    and r: "r = resultOf s opts dropLoc zf zt po dl deadWt invValue v rate"
    by blast
  show "deadWeight r = 0" if "parseFloat weight = NaN"
    using that w by (simp add: r resultOf_simps orZero_def)
  show "volumetricWeight r = 0" if "volume dimensions dimUnit = None"
    using that v by (simp add: r resultOf_simps volumetricWtOf_def toFixed2_zero)
  show "codCharge r = toFixed2 (codOf s opts 0) \<and> rovCharge r = toFixed2 (rovOf s opts 0)"
    if "parseFloat invoiceValue = NaN"
    using that i resultOf_amounts(7,8) [OF r] by (simp add: orZero_def)
qed

lemma zone_codes_not_empty: "\<forall>(k, z) \<in> set STATE_ZONE_MAP. z \<noteq> []"
  by (simp add: STATE_ZONE_MAP_def)

lemma getZone_None_iff:
  "getZone s = None \<longleftrightarrow>
     s = [] \<or> (map_of STATE_ZONE_MAP (trim (toLowerCase s)) = None
              \<and> trim (toLowerCase s) \<notin> set object_prototype_keys)"
proof -
  have "z \<noteq> []" if "map_of STATE_ZONE_MAP k = Some z" for k z
    using map_of_SomeD [OF that] zone_codes_not_empty by blast
  then show ?thesis
    by (auto simp add: getZone_def Let_def split: option.splits)
qed

lemma empty_fields_are_NaN: "parseFloat [] = NaN" "parseFloat ''abc'' = NaN"
  by code_simp+

text \<open>
  C7 fails on the words "missing zone mapping". The state name \<open>constructor\<close> has no
  entry in \<open>STATE_ZONE_MAP\<close> and its postal code has no override, yet
  \<open>STATE_ZONE_MAP['constructor']\<close> is the property that the object literal inherits
  from \<open>Object.prototype\<close>, which is truthy: \<open>getZone\<close> returns it, neither
  \<open>return null\<close> is taken, and the run yields a result record, with rate 0 and the
  minimum freight. The same holds for \<open>__proto__\<close>.
\<close>

theorem unmapped_state_constructor_yields_result:
  "map_of STATE_ZONE_MAP (trim (toLowerCase ''constructor'')) = None
   \<and> getZone ''constructor'' = Some (Inherited ''constructor'')
   \<and> calculate
       \<lparr> pincode = ''110001'', city = ''New Delhi'', state = ''constructor'', loading = False \<rparr>
       \<lparr> pincode = ''400001'', city = ''Mumbai'', state = ''Maharashtra'', loading = False \<rparr>
       ''15'' ''''
       \<lparr> length_dim = Some 40, breadth = Some 30, height = Some 20 \<rparr> CM
       DEFAULT_SETTINGS DEFAULT_OPTIONS
     = Result
        \<lparr> volumetricWeight = 5.33, deadWeight = 15, chargeableWeight = 20,
          zoneFrom = Inherited ''constructor'', zoneTo = Code ''W2'', baseRate = 0,
          freightCharge = 350, fuelSurcharge = 87.5, awbCharge = 100,
          odaCharge = 0, handlingCharge = 0, rovCharge = 0, codCharge = 0,
          regionalCharge = 0, otherSurcharges = 0, totalCost = 538,
          isOda = False, pickupOda = False, deliveryOda = False, warnings = [] \<rparr>"
  by code_simp

subsection \<open>Zone override from the serviceability table\<close>



subsection \<open>The worked example\<close>

text \<open>
  C9: pickup state Delhi, drop state Maharashtra, dead weight 15 kg, dimensions
  40 x 30 x 20 cm, the default settings (divisor 4500, minimum chargeable weight 20,
  minimum freight 350, fuel 25 per cent, AWB 100, no serviceability table) and no
  option, whatever the postal codes and cities: zones N1 and W2, volumetric weight
  5.33, chargeable weight 20, base rate 12.5, freight 350 (the product 250 raised to
  the minimum), fuel surcharge 87.5, AWB 100, no ODA, handling or regional charge,
  total 538.
\<close>

theorem delhi_to_maharashtra_example:
  "calculate
     \<lparr> pincode = p1, city = c1, state = ''Delhi'', loading = l1 \<rparr>
     \<lparr> pincode = p2, city = c2, state = ''Maharashtra'', loading = l2 \<rparr>
     ''15'' ''''
     \<lparr> length_dim = Some 40, breadth = Some 30, height = Some 20 \<rparr> CM
     DEFAULT_SETTINGS DEFAULT_OPTIONS
   = Result
      \<lparr> volumetricWeight = 5.33, deadWeight = 15, chargeableWeight = 20,
        zoneFrom = Code ''N1'', zoneTo = Code ''W2'', baseRate = 12.5,
        freightCharge = 350, fuelSurcharge = 87.5, awbCharge = 100,
        odaCharge = 0, handlingCharge = 0, rovCharge = 0, codCharge = 0,
        regionalCharge = 0, otherSurcharges = 0, totalCost = 538,
        isOda = False, pickupOda = False, deliveryOda = False, warnings = [] \<rparr>
   \<and> (12.5::rat) * 20 = 250
   \<and> basicFreight 12.5 20 (minFreightAmount DEFAULT_SETTINGS) = 350"
  by code_simp

theorem delhi_to_maharashtra_example_witness:
  "calculate
     \<lparr> pincode = ''110001'', city = ''New Delhi'', state = ''Delhi'', loading = True \<rparr>
     \<lparr> pincode = ''411001'', city = ''Pune'', state = ''Maharashtra'', loading = False \<rparr>
     ''15'' ''''
     \<lparr> length_dim = Some 40, breadth = Some 30, height = Some 20 \<rparr> CM
     DEFAULT_SETTINGS DEFAULT_OPTIONS
   = Result
      \<lparr> volumetricWeight = 5.33, deadWeight = 15, chargeableWeight = 20,
        zoneFrom = Code ''N1'', zoneTo = Code ''W2'', baseRate = 12.5,
        freightCharge = 350, fuelSurcharge = 87.5, awbCharge = 100,
        odaCharge = 0, handlingCharge = 0, rovCharge = 0, codCharge = 0,
        regionalCharge = 0, otherSurcharges = 0, totalCost = 538,
        isOda = False, pickupOda = False, deliveryOda = False, warnings = [] \<rparr>"
  using delhi_to_maharashtra_example [of "''110001''" "''New Delhi''" True "''411001''" "''Pune''" False]
  by (rule conjunct1)

subsection \<open>Holiday delivery\<close>

text \<open>
  C10: whatever the settings, the other options and the chargeable weight, switching
  holiday delivery on adds exactly 1000 to the \<open>otherSurcharges\<close> amount: the 1000 is
  a constant of the code and no field of the settings enters this difference, whereas
  the fee of each other specialty service is read from the settings. When the other
  fees are not negative, the \<open>otherSurcharges\<close> figure after two-decimal rounding
  grows by exactly 1000 as well.
\<close>

theorem holiday_fee_is_constant:
  "otherOf s (opts\<lparr>isHoliday := True\<rparr>) w = otherOf s (opts\<lparr>isHoliday := False\<rparr>) w + 1000
   \<and> otherOf s (opts\<lparr>isCsd := True\<rparr>) w = otherOf s (opts\<lparr>isCsd := False\<rparr>) w + csdCharge s
   \<and> otherOf s (opts\<lparr>isTimeSpecific := True\<rparr>) w
       = otherOf s (opts\<lparr>isTimeSpecific := False\<rparr>) w
         + max (timeSpecificMin s) (timeSpecificPerKg s * w)
   \<and> otherOf s (opts\<lparr>isMallDelivery := True\<rparr>) w
       = otherOf s (opts\<lparr>isMallDelivery := False\<rparr>) w
         + max (mallDeliveryMin s) (mallDeliveryPerKg s * w)
   \<and> otherOf s (opts\<lparr>isReattempt := True\<rparr>) w
       = otherOf s (opts\<lparr>isReattempt := False\<rparr>) w
         + max (reattemptMin s) (reattemptPerKg s * w)
   \<and> (0 \<le> otherOf s (opts\<lparr>isHoliday := False\<rparr>) w \<longrightarrow>
        toFixed2 (otherOf s (opts\<lparr>isHoliday := True\<rparr>) w)
          = toFixed2 (otherOf s (opts\<lparr>isHoliday := False\<rparr>) w) + 1000)"
proof -
  have h: "otherOf s (opts\<lparr>isHoliday := True\<rparr>) w
             = otherOf s (opts\<lparr>isHoliday := False\<rparr>) w + 1000"
    by (simp add: otherOf_def Let_def)
  have r: "toFixed2 (otherOf s (opts\<lparr>isHoliday := True\<rparr>) w)
             = toFixed2 (otherOf s (opts\<lparr>isHoliday := False\<rparr>) w) + 1000"
    if "0 \<le> otherOf s (opts\<lparr>isHoliday := False\<rparr>) w"
    using toFixed2_add_1000 [OF that] by (simp only: h)
  have rest:
    "otherOf s (opts\<lparr>isCsd := True\<rparr>) w = otherOf s (opts\<lparr>isCsd := False\<rparr>) w + csdCharge s"
    "otherOf s (opts\<lparr>isTimeSpecific := True\<rparr>) w
       = otherOf s (opts\<lparr>isTimeSpecific := False\<rparr>) w
         + max (timeSpecificMin s) (timeSpecificPerKg s * w)"
    "otherOf s (opts\<lparr>isMallDelivery := True\<rparr>) w
       = otherOf s (opts\<lparr>isMallDelivery := False\<rparr>) w
         + max (mallDeliveryMin s) (mallDeliveryPerKg s * w)"
    "otherOf s (opts\<lparr>isReattempt := True\<rparr>) w
       = otherOf s (opts\<lparr>isReattempt := False\<rparr>) w
         + max (reattemptMin s) (reattemptPerKg s * w)"
    by (simp_all add: otherOf_def Let_def)
  from h r rest show ?thesis by blast
qed

theorem holiday_fee_is_constant_witness:
  "otherOf DEFAULT_SETTINGS (DEFAULT_OPTIONS\<lparr>isHoliday := False\<rparr>) 20 = 0
   \<and> otherOf DEFAULT_SETTINGS (DEFAULT_OPTIONS\<lparr>isHoliday := True\<rparr>) 20 = 1000
   \<and> otherOf (DEFAULT_SETTINGS\<lparr>csdCharge := 1, timeSpecificMin := 2\<rparr>)
        (DEFAULT_OPTIONS\<lparr>isHoliday := True\<rparr>) 20 = 1000
   \<and> toFixed2 (otherOf DEFAULT_SETTINGS (DEFAULT_OPTIONS\<lparr>isHoliday := True\<rparr>) 20) = 1000"
proof -
  have z: "otherOf s (DEFAULT_OPTIONS\<lparr>isHoliday := False\<rparr>) 20 = 0" for s
    by (simp add: otherOf_def DEFAULT_OPTIONS_def Let_def)
  have nn: "0 \<le> otherOf DEFAULT_SETTINGS (DEFAULT_OPTIONS\<lparr>isHoliday := False\<rparr>) 20"
    by (simp add: z)
  from holiday_fee_is_constant [of DEFAULT_SETTINGS DEFAULT_OPTIONS 20] nn
  have a: "otherOf DEFAULT_SETTINGS (DEFAULT_OPTIONS\<lparr>isHoliday := True\<rparr>) 20
             = otherOf DEFAULT_SETTINGS (DEFAULT_OPTIONS\<lparr>isHoliday := False\<rparr>) 20 + 1000"
    and b: "toFixed2 (otherOf DEFAULT_SETTINGS (DEFAULT_OPTIONS\<lparr>isHoliday := True\<rparr>) 20)
             = toFixed2 (otherOf DEFAULT_SETTINGS (DEFAULT_OPTIONS\<lparr>isHoliday := False\<rparr>) 20) + 1000"
    by blast+
  from holiday_fee_is_constant [of "DEFAULT_SETTINGS\<lparr>csdCharge := 1, timeSpecificMin := 2\<rparr>"
      DEFAULT_OPTIONS 20]
  have c: "otherOf (DEFAULT_SETTINGS\<lparr>csdCharge := 1, timeSpecificMin := 2\<rparr>)
             (DEFAULT_OPTIONS\<lparr>isHoliday := True\<rparr>) 20
           = otherOf (DEFAULT_SETTINGS\<lparr>csdCharge := 1, timeSpecificMin := 2\<rparr>)
             (DEFAULT_OPTIONS\<lparr>isHoliday := False\<rparr>) 20 + 1000"
    by blast
  from a b c show ?thesis by (simp add: z toFixed2_zero)
qed

end
